theory Spec2Isabelle
  imports Main
begin

section \<open>Values of the host runtime\<close>

text \<open>
  The client of \<^verbatim>\<open>src/index.ts\<close> runs on a V8 host. The part of that host the
  code touches is made explicit here: JavaScript values, what \<^verbatim>\<open>JSON.stringify\<close>
  sends of them, exceptions, the parsed \<^verbatim>\<open>URL\<close>, \<^verbatim>\<open>Request\<close>, \<^verbatim>\<open>Response\<close> and the
  promise a transport returns.
\<close>

text \<open>
  JavaScript values, as the capture options can hold them (\<^verbatim>\<open>Record<string, unknown>\<close>):
  \<open>Undefined\<close> is a value of its own, numbers are the integers, and an object is the list
  of its own properties in insertion order. \<open>BigInt\<close> is a \<^verbatim>\<open>bigint\<close>; \<open>Circular\<close> stands, inside
  an object or array, for a reference back to an object or array that encloses it.
\<close>

datatype js_value =
    Undefined
  | Null
  | Bool bool
  | Num int
  | Str string
  | BigInt int
  | Circular
  | Arr "js_value list"
  | Obj "(string \<times> js_value) list"

text \<open>The document a receiver reads back from a request body (\<^verbatim>\<open>await request.json()\<close>).\<close>

datatype json =
    JNull
  | JBool bool
  | JNum int
  | JStr string
  | JArr "json list"
  | JObj "(string \<times> json) list"

text \<open>What a \<^verbatim>\<open>throw\<close> carries: a \<^verbatim>\<open>TypeError\<close> of the runtime, or any value user code threw.\<close>

datatype js_exn = TypeError string | Thrown js_value

text \<open>
  \<^verbatim>\<open>JSON.stringify\<close>, read as the document its text denotes; \<open>Inr None\<close> is the result
  \<^verbatim>\<open>undefined\<close>. It throws a \<^verbatim>\<open>TypeError\<close> at the first \<^verbatim>\<open>bigint\<close> and at the first reference
  that closes a cycle. A property whose value is \<^verbatim>\<open>undefined\<close> is left out of its object
  (\<open>entry\<close> is the property written, if any), an \<^verbatim>\<open>undefined\<close> array element is written
  \<^verbatim>\<open>null\<close>. \<open>properties\<close> and \<open>elements\<close> put the serialised members together, in order,
  up to the first that throws.
\<close>

definition entry :: "string \<Rightarrow> json option \<Rightarrow> (string \<times> json) list" where
  "entry k v = (case v of None \<Rightarrow> [] | Some j \<Rightarrow> [(k, j)])"

fun properties :: "(string \<times> (js_exn + json option)) list \<Rightarrow> js_exn + (string \<times> json) list" where
  "properties [] = Inr []"
| "properties (kr # rest) =
     (case snd kr of
        Inl x \<Rightarrow> Inl x
      | Inr j \<Rightarrow>
          (case properties rest of
             Inl x \<Rightarrow> Inl x
           | Inr ps \<Rightarrow> Inr (entry (fst kr) j @ ps)))"

fun elements :: "(js_exn + json option) list \<Rightarrow> js_exn + json list" where
  "elements [] = Inr []"
| "elements (r # rest) =
     (case r of
        Inl x \<Rightarrow> Inl x
      | Inr j \<Rightarrow>
          (case elements rest of
             Inl x \<Rightarrow> Inl x
           | Inr js \<Rightarrow> Inr ((case j of None \<Rightarrow> JNull | Some d \<Rightarrow> d) # js)))"

fun JSON_stringify :: "js_value \<Rightarrow> js_exn + json option" where
  "JSON_stringify Undefined = Inr None"
| "JSON_stringify Null = Inr (Some JNull)"
| "JSON_stringify (Bool b) = Inr (Some (JBool b))"
| "JSON_stringify (Num n) = Inr (Some (JNum n))"
| "JSON_stringify (Str s) = Inr (Some (JStr s))"
| "JSON_stringify (BigInt n) = Inl (TypeError ''Do not know how to serialize a BigInt'')"
| "JSON_stringify Circular = Inl (TypeError ''Converting circular structure to JSON'')"
| "JSON_stringify (Arr vs) =
     (case elements (map JSON_stringify vs) of
        Inl x \<Rightarrow> Inl x
      | Inr js \<Rightarrow> Inr (Some (JArr js)))"
| "JSON_stringify (Obj kvs) =
     (case properties (map (\<lambda>kv. (fst kv, JSON_stringify (snd kv))) kvs) of
        Inl x \<Rightarrow> Inl x
      | Inr ps \<Rightarrow> Inr (Some (JObj ps)))"

subsection \<open>Call sites, errors and the trace-formatter hook\<close>

text \<open>
  What a getter of a V8 \<^verbatim>\<open>CallSite\<close> returns: \<^verbatim>\<open>undefined\<close> (as \<^verbatim>\<open>getFileName()\<close> does on a
  frame of \<^verbatim>\<open>eval\<close> code), \<^verbatim>\<open>null\<close>, or a value.
\<close>

datatype 'a returned = Returned_undefined | Returned_null | Returned 'a

text \<open>
  A V8 \<^verbatim>\<open>CallSite\<close>, by the results of the methods \<^verbatim>\<open>captureException\<close> calls on it.
  \<open>getThis_String\<close> is the text \<^verbatim>\<open>String(callSite.getThis())\<close>.
\<close>

record call_site =
  getFunctionName :: "string returned"
  getFileName :: "string returned"
  getLineNumber :: "int returned"
  getColumnNumber :: "int returned"
  isNative :: bool
  getThis_String :: string

text \<open>
  The \<^verbatim>\<open>stack\<close> slot of an error object: structured frames that were captured and not yet
  formatted, or the value reading \<^verbatim>\<open>error.stack\<close> gives (what a formatter returned for the
  frames; \<^verbatim>\<open>undefined\<close> when no frames were captured).
\<close>

datatype stack_slot = Unformatted "call_site list" | Formatted js_value

text \<open>
  An error object as \<^verbatim>\<open>captureException\<close> takes it: an \<^verbatim>\<open>Error\<close> with its name, its message
  and a stack slot that can be written (the object is extensible).
\<close>

record js_error =
  name :: string
  message :: string
  stack :: stack_slot

text \<open>
  The values \<^verbatim>\<open>Error.prepareStackTrace\<close> takes: a formatter some other code installed
  (it returns a value or throws), or the arrow function of \<^verbatim>\<open>getErrorStack\<close> (lines 37-40
  of \<^verbatim>\<open>src/index.ts\<close>), which is closed over the hook it found (\<open>None\<close> is \<^verbatim>\<open>undefined\<close>).
\<close>

datatype hook =
    Host_hook "js_error \<Rightarrow> call_site list \<Rightarrow> js_exn + js_value"
  | Capture_hook "hook option"

text \<open>
  Calling a hook for its result. The arrow function delegates to the hook it closed over:
  \<^verbatim>\<open>return prepareStackTrace?.(error, v8Trace)\<close>, which is \<^verbatim>\<open>undefined\<close> when there is none.
\<close>

fun call_hook :: "hook \<Rightarrow> js_error \<Rightarrow> call_site list \<Rightarrow> js_exn + js_value" where
  "call_hook (Host_hook f) e t = f e t"
| "call_hook (Capture_hook None) e t = Inr Undefined"
| "call_hook (Capture_hook (Some h)) e t = call_hook h e t"

subsection \<open>URL, request, response, promise\<close>

text \<open>The components of a parsed \<^verbatim>\<open>URL\<close> object.\<close>

record URL =
  protocol :: string
  username :: string
  password :: string
  host :: string
  pathname :: string

text \<open>
  A \<^verbatim>\<open>Request\<close>, by the arguments it was constructed from: \<open>http_method\<close> is its
  \<^verbatim>\<open>method\<close>, \<open>body\<close> is the document the body text denotes.
\<close>

record request =
  url :: string
  http_method :: string
  headers :: "(string \<times> string) list"
  body :: "json option"

record response =
  status :: nat

text \<open>The settled state of the promise a transport returns.\<close>

datatype promise = Resolved response | Rejected js_value

type_synonym Fetch = "request \<Rightarrow> promise"

text \<open>
  The process-wide state the code reads and writes: the global \<^verbatim>\<open>Error.prepareStackTrace\<close>,
  whether the global \<^verbatim>\<open>Error.stackTraceLimit\<close> holds a number (V8 captures no frames at all
  when it does not), and the requests handed to a transport so far, oldest first.
\<close>

record world =
  prepareStackTrace :: "hook option"
  stackTraceLimit_is_number :: bool
  fetch_calls :: "request list"

section \<open>The stack extractor\<close>

text \<open>
  The arrow function installed at lines 37-40, applied to the raw frames: it assigns the
  local \<^verbatim>\<open>trace\<close> (first component) and returns what the previous hook returns.
\<close>

definition capture_arrow ::
  "hook option \<Rightarrow> js_error \<Rightarrow> call_site list \<Rightarrow> call_site list option \<times> (js_exn + js_value)" where
  "capture_arrow prev e v8Trace = (Some v8Trace, call_hook (Capture_hook prev) e v8Trace)"

text \<open>
  \<^verbatim>\<open>getErrorStack(error)\<close>, lines 33-47. \<open>here\<close> is what V8 captures for
  \<^verbatim>\<open>Error.captureStackTrace(error, getErrorStack)\<close> when it captures frames: the call sites
  of the caller of \<^verbatim>\<open>getErrorStack\<close> and of its callers, innermost first, as many as
  \<^verbatim>\<open>Error.stackTraceLimit\<close> admits. The error object is an ordinary extensible one, so that
  line 42 can define its \<^verbatim>\<open>stack\<close>.

  \<^item> line 34 reads the global hook;
  \<^item> line 35 declares the local \<^verbatim>\<open>trace\<close>, which is \<^verbatim>\<open>undefined\<close> (\<open>None\<close>) until assigned;
  \<^item> lines 37-40 replace the global hook by the arrow function;
  \<^item> line 42 overwrites the error's stack slot: with the frames \<open>here\<close>, unformatted, or,
    when \<^verbatim>\<open>Error.stackTraceLimit\<close> is not a number, with no frames;
  \<^item> line 43 reads \<^verbatim>\<open>error.stack\<close>. Where frames were captured this formats them through the
    global hook, now the arrow function, and if that throws, the function is left at once.
    Where none were, the hook is not called and the value read is \<^verbatim>\<open>undefined\<close>;
  \<^item> line 44 puts the hook read at line 34 back;
  \<^item> line 46 returns the local \<^verbatim>\<open>trace\<close>.

  The result is the world and the error object after the call, and the exception thrown
  or the value returned.
\<close>

definition getErrorStack ::
  "world \<Rightarrow> call_site list \<Rightarrow> js_error
     \<Rightarrow> world \<times> js_error \<times> (js_exn + call_site list option)" where
  "getErrorStack w here error =
     (let prev = prepareStackTrace w;
          w1 = w\<lparr>prepareStackTrace := Some (Capture_hook prev)\<rparr>
      in if stackTraceLimit_is_number w then
           (let error1 = error\<lparr>stack := Unformatted here\<rparr>;
                (trace, formatted) = capture_arrow prev error1 here
            in case formatted of
                 Inl x \<Rightarrow> (w1, error1, Inl x)
               | Inr v \<Rightarrow>
                   (w1\<lparr>prepareStackTrace := prev\<rparr>, error1\<lparr>stack := Formatted v\<rparr>, Inr trace))
         else
           (w1\<lparr>prepareStackTrace := prev\<rparr>, error\<lparr>stack := Formatted Undefined\<rparr>, Inr None))"

section \<open>The client\<close>

subsection \<open>Options\<close>

text \<open>\<^verbatim>\<open>SentryOptions\<close>, lines 52-55: the connection string and an optional transport.\<close>

record SentryOptions =
  dsn :: string
  fetch_option :: "Fetch option"

datatype SentryLevel = Fatal | Error | Warning | Info | Debug

fun level_string :: "SentryLevel \<Rightarrow> string" where
  "level_string Fatal = ''fatal''"
| "level_string Error = ''error''"
| "level_string Warning = ''warning''"
| "level_string Info = ''info''"
| "level_string Debug = ''debug''"

text \<open>
  \<^verbatim>\<open>CaptureExceptionOptions\<close>, lines 67-141. Every property is optional: \<open>None\<close> is a
  property that is not set. The properties of the nested \<^verbatim>\<open>user\<close>, \<^verbatim>\<open>request\<close> and
  breadcrumb objects carry a prefix here, their names being taken already.
\<close>

record user_options =
  user_id :: "string option"
  user_username :: "string option"
  user_email :: "string option"
  user_ip :: "string option"

record request_options =
  req_method :: "string option"
  req_url :: "string option"
  req_headers :: "(string \<times> string) list option"
  req_query :: "string option"
  req_cookies :: "js_value option"
  req_env :: "(string \<times> string) list option"

record breadcrumb =
  crumb_timestamp :: "int option"
  crumb_type :: "string option"
  crumb_category :: "string option"
  crumb_message :: "string option"
  crumb_data :: "(string \<times> js_value) list option"
  crumb_level :: "SentryLevel option"

record CaptureExceptionOptions =
  level :: "SentryLevel option"
  extra :: "(string \<times> js_value) list option"
  tags :: "(string \<times> string) list option"
  release :: "string option"
  dist :: "string option"
  environment :: "string option"
  serverName :: "string option"
  transaction :: "string option"
  modules :: "(string \<times> string) list option"
  user :: "user_options option"
  fingerprint :: "string list option"
  request :: "request_options option"
  breadcrumbs :: "breadcrumb list option"

text \<open>The default argument \<^verbatim>\<open>options = {}\<close> of line 158.\<close>

definition no_options :: CaptureExceptionOptions where
  "no_options =
     \<lparr>level = None, extra = None, tags = None, release = None, dist = None,
      environment = None, serverName = None, transaction = None, modules = None,
      user = None, fingerprint = None, request = None, breadcrumbs = None\<rparr>"

subsection \<open>Reading options into JavaScript values\<close>

text \<open>An optional property read as a value: \<^verbatim>\<open>undefined\<close> when it is not set.\<close>

definition optional :: "('a \<Rightarrow> js_value) \<Rightarrow> 'a option \<Rightarrow> js_value" where
  "optional f x = (case x of None \<Rightarrow> Undefined | Some a \<Rightarrow> f a)"

text \<open>What a getter of a call site returned, as a value.\<close>

definition returned_value :: "('a \<Rightarrow> js_value) \<Rightarrow> 'a returned \<Rightarrow> js_value" where
  "returned_value f x =
     (case x of Returned_undefined \<Rightarrow> Undefined | Returned_null \<Rightarrow> Null | Returned a \<Rightarrow> f a)"

text \<open>A \<^verbatim>\<open>Record<string, string>\<close> as an object.\<close>

definition string_record :: "(string \<times> string) list \<Rightarrow> js_value" where
  "string_record kvs = Obj (map (\<lambda>kv. (fst kv, Str (snd kv))) kvs)"

text \<open>Optional chaining \<^verbatim>\<open>options.user?.id\<close>: \<^verbatim>\<open>undefined\<close> when either level is not set.\<close>

definition chained :: "'a option \<Rightarrow> ('a \<Rightarrow> 'b option) \<Rightarrow> 'b option" where
  "chained x f = (case x of None \<Rightarrow> None | Some a \<Rightarrow> f a)"

subsection \<open>Construction\<close>

record Sentry =
  sentryUrl :: URL
  fetch :: Fetch

text \<open>
  The constructor, lines 150-153. The platform's \<^verbatim>\<open>new URL\<close> (it throws on a string that is
  no URL) and the ambient \<^verbatim>\<open>fetch\<close> are parameters.
\<close>

definition Sentry_new ::
  "(string \<Rightarrow> js_exn + URL) \<Rightarrow> Fetch \<Rightarrow> SentryOptions \<Rightarrow> js_exn + Sentry" where
  "Sentry_new URL_new global_fetch options =
     (case URL_new (dsn options) of
        Inl x \<Rightarrow> Inl x
      | Inr u \<Rightarrow>
          Inr \<lparr>sentryUrl = u,
               fetch = (case fetch_option options of Some f \<Rightarrow> f | None \<Rightarrow> global_fetch)\<rparr>)"

subsection \<open>The event\<close>

text \<open>The frame descriptor of lines 184-191.\<close>

definition frame :: "call_site \<Rightarrow> js_value" where
  "frame callSite =
     Obj [(''function'', returned_value Str (getFunctionName callSite)),
          (''filename'', returned_value Str (getFileName callSite)),
          (''lineno'', returned_value Num (getLineNumber callSite)),
          (''colno'', returned_value Num (getColumnNumber callSite)),
          (''in_app'', Bool (\<not> isNative callSite)),
          (''vars'', Obj [(''this'', Str (getThis_String callSite))])]"

text \<open>
  The object literal of lines 170-217, given the frames \<^verbatim>\<open>getErrorStack(error)\<close> returned.
  The options \<^verbatim>\<open>modules\<close> and \<^verbatim>\<open>breadcrumbs\<close> are not read.
\<close>

definition event :: "js_error \<Rightarrow> call_site list \<Rightarrow> CaptureExceptionOptions \<Rightarrow> js_value" where
  "event error trace options =
     Obj [(''logger'', Str ''worker''),
          (''platform'', Str ''javascript''),
          (''level'', optional (\<lambda>l. Str (level_string l)) (level options)),
          (''extra'', optional Obj (extra options)),
          (''fingerprint'', optional (\<lambda>fp. Arr (map Str fp)) (fingerprint options)),
          (''exception'',
             Obj [(''values'',
                Arr [Obj [(''type'', Str (name error)),
                          (''value'', Str (message error)),
                          (''stacktrace'', Obj [(''frames'', Arr (map frame trace))])]])]),
          (''tags'', optional string_record (tags options)),
          (''user'',
             Obj [(''id'', optional Str (chained (user options) user_id)),
                  (''email'', optional Str (chained (user options) user_email)),
                  (''username'', optional Str (chained (user options) user_username)),
                  (''ip_address'', optional Str (chained (user options) user_ip))]),
          (''request'',
             Obj [(''url'', optional Str (chained (request options) req_url)),
                  (''method'', optional Str (chained (request options) req_method)),
                  (''headers'', optional string_record (chained (request options) req_headers)),
                  (''query_string'', optional Str (chained (request options) req_query)),
                  (''cookies'', optional (\<lambda>c. c) (chained (request options) req_cookies)),
                  (''env'', optional string_record (chained (request options) req_env))]),
          (''server_name'', optional Str (serverName options)),
          (''transaction'', optional Str (transaction options)),
          (''release'', optional Str (release options)),
          (''dist'', optional Str (dist options)),
          (''environment'', optional Str (environment options))]"

text \<open>
  The \<^verbatim>\<open>Request\<close> of lines 160-220, given the result of \<^verbatim>\<open>JSON.stringify\<close> at line 170.
\<close>

definition sentry_request :: "Sentry \<Rightarrow> json option \<Rightarrow> request" where
  "sentry_request this serialised =
     \<lparr>url = ''https://sentry.io/api'' @ pathname (sentryUrl this) @ ''/store/'',
      http_method = ''POST'',
      headers =
        [(''Content-Type'', ''application/json''),
         (''User-Agent'', ''Cloudflare-Worker/1.0''),
         (''X-Sentry-Auth'',
            ''Sentry sentry_version=7, sentry_client=Cloudflare-Worker/1.0, sentry_key=''
              @ username (sentryUrl this))],
      body = serialised\<rparr>"

text \<open>
  \<^verbatim>\<open>captureException(error, options)\<close>, lines 158-223. \<open>here\<close> is the call stack V8 sees
  above \<^verbatim>\<open>getErrorStack\<close> during the call: the call site in \<^verbatim>\<open>captureException\<close> and those
  of its callers.

  The arguments of \<^verbatim>\<open>new Request\<close> are evaluated first. Among them is the object literal,
  with \<^verbatim>\<open>getErrorStack(error).map(...)\<close> at line 183: an exception \<^verbatim>\<open>getErrorStack\<close> throws
  leaves \<^verbatim>\<open>captureException\<close> there, and so does \<^verbatim>\<open>.map\<close> on the \<^verbatim>\<open>undefined\<close> that
  \<^verbatim>\<open>getErrorStack\<close> returns when no frames were captured. Then \<^verbatim>\<open>JSON.stringify\<close> runs on the
  literal, and an exception it throws leaves \<^verbatim>\<open>captureException\<close> as well. Only then
  line 222 hands the request to the transport, which is recorded in \<open>fetch_calls\<close>, and
  returns what the transport returned.

  \<^verbatim>\<open>String\<close> on the receiver of a frame and \<^verbatim>\<open>new Request\<close> do not throw on the values
  here; the transport returns a promise and does not throw either.
\<close>

definition captureException ::
  "Sentry \<Rightarrow> world \<Rightarrow> call_site list \<Rightarrow> js_error \<Rightarrow> CaptureExceptionOptions
     \<Rightarrow> world \<times> js_error \<times> (js_exn + promise)" where
  "captureException this w here error options =
     (let (w1, error1, extracted) = getErrorStack w here error
      in case extracted of
           Inl x \<Rightarrow> (w1, error1, Inl x)
         | Inr None \<Rightarrow>
             (w1, error1,
              Inl (TypeError ''Cannot read properties of undefined (reading 'map')''))
         | Inr (Some trace) \<Rightarrow>
             (case JSON_stringify (event error trace options) of
                Inl x \<Rightarrow> (w1, error1, Inl x)
              | Inr serialised \<Rightarrow>
                  (let request = sentry_request this serialised
                   in (w1\<lparr>fetch_calls := fetch_calls w1 @ [request]\<rparr>,
                       error1,
                       Inr (fetch this request)))))"

subsection \<open>Reading a document\<close>

text \<open>The value of a property of a document that is an object, if it has the property.\<close>

fun member :: "json \<Rightarrow> string \<Rightarrow> json option" where
  "member (JObj kvs) k = map_of kvs k"
| "member j k = None"

text \<open>The keys of a document that is an object, in order.\<close>

fun keys :: "json \<Rightarrow> string list" where
  "keys (JObj kvs) = map fst kvs"
| "keys j = []"

text \<open>Following property names down from a document.\<close>

fun at_path :: "json \<Rightarrow> string list \<Rightarrow> json option" where
  "at_path j [] = Some j"
| "at_path j (k # ks) = (case member j k of None \<Rightarrow> None | Some j' \<Rightarrow> at_path j' ks)"

section \<open>Concrete inputs\<close>

text \<open>
  The connection string of the tests, \<^verbatim>\<open>https://123@456.ingest.sentry.io/789\<close>, and the
  components \<^verbatim>\<open>new URL\<close> gives for it.
\<close>

definition test_dsn :: string where
  "test_dsn = ''https://123@456.ingest.sentry.io/789''"

definition test_URL :: URL where
  "test_URL =
     \<lparr>protocol = ''https:'', username = ''123'', password = [],
      host = ''456.ingest.sentry.io'', pathname = ''/789''\<rparr>"

text \<open>The platform's \<^verbatim>\<open>new URL\<close> at that connection string; the table has this one entry.\<close>

definition test_URL_new :: "string \<Rightarrow> js_exn + URL" where
  "test_URL_new s = (if s = test_dsn then Inr test_URL else Inl (TypeError ''Invalid URL''))"

text \<open>The mocked transport: \<^verbatim>\<open>fetch.mockResolvedValueOnce(new Response(null, { status: 200 }))\<close>.\<close>

definition test_fetch :: Fetch where
  "test_fetch r = Resolved \<lparr>status = 200\<rparr>"

text \<open>A transport whose promise rejects.\<close>

definition failing_fetch :: Fetch where
  "failing_fetch r = Rejected (Str ''network down'')"

text \<open>\<^verbatim>\<open>new Sentry({ dsn, fetch })\<close>.\<close>

definition test_sentry :: Sentry where
  "test_sentry = \<lparr>sentryUrl = test_URL, fetch = test_fetch\<rparr>"

text \<open>
  \<^verbatim>\<open>new Error("Boom!")\<close>, created in a function \<^verbatim>\<open>handler\<close>; and a call stack at the time of
  the report: the call site in \<^verbatim>\<open>captureException\<close> and a native, anonymous caller.
\<close>

definition throw_site :: call_site where
  "throw_site =
     \<lparr>getFunctionName = Returned ''handler'', getFileName = Returned ''/app/worker.js'',
      getLineNumber = Returned 12, getColumnNumber = Returned 9, isNative = False,
      getThis_String = ''undefined''\<rparr>"

definition report_site :: call_site where
  "report_site =
     \<lparr>getFunctionName = Returned ''captureException'',
      getFileName = Returned ''/worker-sentry/src/index.ts'',
      getLineNumber = Returned 183, getColumnNumber = Returned 27, isNative = False,
      getThis_String = ''[object Object]''\<rparr>"

definition native_site :: call_site where
  "native_site =
     \<lparr>getFunctionName = Returned_null, getFileName = Returned_null,
      getLineNumber = Returned_null, getColumnNumber = Returned_null, isNative = True,
      getThis_String = ''undefined''\<rparr>"

text \<open>A call site in \<^verbatim>\<open>eval\<close> code: \<^verbatim>\<open>getFileName()\<close> returns \<^verbatim>\<open>undefined\<close> there.\<close>

definition eval_site :: call_site where
  "eval_site =
     \<lparr>getFunctionName = Returned ''eval'', getFileName = Returned_undefined,
      getLineNumber = Returned 1, getColumnNumber = Returned 1, isNative = False,
      getThis_String = ''undefined''\<rparr>"

definition Boom :: js_error where
  "Boom = \<lparr>name = ''Error'', message = ''Boom!'', stack = Unformatted [throw_site]\<rparr>"

definition report_stack :: "call_site list" where
  "report_stack = [report_site, native_site]"

text \<open>
  A process where no formatter is installed, \<^verbatim>\<open>Error.stackTraceLimit\<close> is a number and no
  request was sent.
\<close>

definition quiet_world :: world where
  "quiet_world =
     \<lparr>prepareStackTrace = None, stackTraceLimit_is_number = True, fetch_calls = []\<rparr>"


text \<open>
  A process where other code installed a formatter that throws:
  \<^verbatim>\<open>Error.prepareStackTrace = () => { throw "formatter failed" }\<close>.
\<close>

definition throwing_formatter :: hook where
  "throwing_formatter = Host_hook (\<lambda>e t. Inl (Thrown (Str ''formatter failed'')))"

definition throwing_world :: world where
  "throwing_world =
     \<lparr>prepareStackTrace = Some throwing_formatter, stackTraceLimit_is_number = True,
      fetch_calls = []\<rparr>"

text \<open>The options of the test \<^verbatim>\<open>should send all properties\<close>.\<close>

definition all_properties :: CaptureExceptionOptions where
  "all_properties =
     \<lparr>level = Some Error, extra = Some [(''test'', Bool True)],
      tags = Some [(''test'', ''test'')], release = Some ''test'', dist = Some ''test'',
      environment = Some ''production'', serverName = Some ''test'',
      transaction = Some ''test'', modules = None, user = None, fingerprint = Some [],
      request = None,
      breadcrumbs =
        Some [\<lparr>crumb_timestamp = None, crumb_type = Some ''error'', crumb_category = None,
               crumb_message = Some ''error'', crumb_data = None, crumb_level = None\<rparr>]\<rparr>"


section \<open>Properties\<close>

subsection \<open>Reading the model\<close>

lemma map_of_entry:
  "map_of (entry k v @ rest) k' =
     (if k' = k then (case v of None \<Rightarrow> map_of rest k' | Some j \<Rightarrow> Some j) else map_of rest k')"
  by (simp add: entry_def split: option.splits)

lemma map_of_entry_last:
  "map_of (entry k v) k' = (if k' = k then v else None)"
  by (simp add: entry_def split: option.splits)

lemma stringify_optional:
  "JSON_stringify (optional f x) = (case x of None \<Rightarrow> Inr None | Some a \<Rightarrow> JSON_stringify (f a))"
  by (simp add: optional_def split: option.splits)

lemma stringify_optional_Str:
  "JSON_stringify (optional Str x) = Inr (map_option JStr x)"
  by (simp add: optional_def split: option.splits)

lemma stringify_optional_level:
  "JSON_stringify (optional (\<lambda>l. Str (level_string l)) x)
     = Inr (map_option (\<lambda>l. JStr (level_string l)) x)"
  by (simp add: optional_def split: option.splits)

lemma elements_Str:
  "elements (map (JSON_stringify \<circ> Str) xs) = Inr (map JStr xs)"
  by (induction xs) simp_all

lemma stringify_optional_fingerprint:
  "JSON_stringify (optional (\<lambda>fp. Arr (map Str fp)) x)
     = Inr (map_option (\<lambda>fp. JArr (map JStr fp)) x)"
  by (simp add: optional_def elements_Str split: option.splits)

lemma properties_string_record:
  "properties (map ((\<lambda>kv. (fst kv, JSON_stringify (snd kv))) \<circ> (\<lambda>kv. (fst kv, Str (snd kv)))) kvs)
     = Inr (map (\<lambda>kv. (fst kv, JStr (snd kv))) kvs)"
  by (induction kvs) (simp_all add: entry_def)

lemma stringify_optional_record:
  "JSON_stringify (optional string_record x)
     = Inr (map_option (\<lambda>kvs. JObj (map (\<lambda>kv. (fst kv, JStr (snd kv))) kvs)) x)"
  by (simp add: optional_def string_record_def properties_string_record split: option.splits)

lemma stringify_returned_Str:
  "JSON_stringify (returned_value Str x) =
     Inr (case x of Returned_undefined \<Rightarrow> None | Returned_null \<Rightarrow> Some JNull
          | Returned s \<Rightarrow> Some (JStr s))"
  by (simp add: returned_value_def split: returned.splits)

lemma stringify_returned_Num:
  "JSON_stringify (returned_value Num x) =
     Inr (case x of Returned_undefined \<Rightarrow> None | Returned_null \<Rightarrow> Some JNull
          | Returned n \<Rightarrow> Some (JNum n))"
  by (simp add: returned_value_def split: returned.splits)

lemma stringify_frame:
  "JSON_stringify (frame c) =
     Inr (Some (JObj
       (entry ''function'' (case getFunctionName c of Returned_undefined \<Rightarrow> None
            | Returned_null \<Rightarrow> Some JNull | Returned s \<Rightarrow> Some (JStr s)) @
        entry ''filename'' (case getFileName c of Returned_undefined \<Rightarrow> None
            | Returned_null \<Rightarrow> Some JNull | Returned s \<Rightarrow> Some (JStr s)) @
        entry ''lineno'' (case getLineNumber c of Returned_undefined \<Rightarrow> None
            | Returned_null \<Rightarrow> Some JNull | Returned n \<Rightarrow> Some (JNum n)) @
        entry ''colno'' (case getColumnNumber c of Returned_undefined \<Rightarrow> None
            | Returned_null \<Rightarrow> Some JNull | Returned n \<Rightarrow> Some (JNum n)) @
        [(''in_app'', JBool (\<not> isNative c)),
         (''vars'', JObj [(''this'', JStr (getThis_String c))])])))"
  by (simp add: frame_def stringify_returned_Str stringify_returned_Num) (simp add: entry_def)

lemma elements_frames:
  "elements (map (JSON_stringify \<circ> frame) trace) =
     Inr (map (\<lambda>c. case JSON_stringify (frame c) of Inr (Some j) \<Rightarrow> j | _ \<Rightarrow> JNull) trace)"
  by (induction trace) (simp_all add: stringify_frame)

lemma stringify_frames:
  "JSON_stringify (Arr (map frame trace)) =
     Inr (Some (JArr (map (\<lambda>c. case JSON_stringify (frame c) of Inr (Some j) \<Rightarrow> j | _ \<Rightarrow> JNull) trace)))"
  by (simp add: elements_frames)

text \<open>The document of an event, whenever its \<^verbatim>\<open>extra\<close> and \<^verbatim>\<open>cookies\<close> serialise.\<close>

lemma stringify_event:
  assumes "JSON_stringify (optional Obj (extra options)) = Inr ex"
    and "JSON_stringify (optional (\<lambda>c. c) (chained (request options) req_cookies)) = Inr ck"
  shows "JSON_stringify (event error trace options) =
     Inr (Some (JObj (
       [(''logger'', JStr ''worker''), (''platform'', JStr ''javascript'')] @
       entry ''level'' (map_option (\<lambda>l. JStr (level_string l)) (level options)) @
       entry ''extra'' ex @
       entry ''fingerprint'' (map_option (\<lambda>fp. JArr (map JStr fp)) (fingerprint options)) @
       [(''exception'', JObj [(''values'', JArr [JObj [(''type'', JStr (name error)),
            (''value'', JStr (message error)),
            (''stacktrace'', JObj [(''frames'', JArr (map
               (\<lambda>c. case JSON_stringify (frame c) of Inr (Some j) \<Rightarrow> j | _ \<Rightarrow> JNull) trace))])]])])] @
       entry ''tags'' (map_option (\<lambda>kvs. JObj (map (\<lambda>kv. (fst kv, JStr (snd kv))) kvs)) (tags options)) @
       [(''user'', JObj (
           entry ''id'' (map_option JStr (chained (user options) user_id)) @
           entry ''email'' (map_option JStr (chained (user options) user_email)) @
           entry ''username'' (map_option JStr (chained (user options) user_username)) @
           entry ''ip_address'' (map_option JStr (chained (user options) user_ip))))] @
       [(''request'', JObj (
           entry ''url'' (map_option JStr (chained (request options) req_url)) @
           entry ''method'' (map_option JStr (chained (request options) req_method)) @
           entry ''headers'' (map_option (\<lambda>kvs. JObj (map (\<lambda>kv. (fst kv, JStr (snd kv))) kvs))
              (chained (request options) req_headers)) @
           entry ''query_string'' (map_option JStr (chained (request options) req_query)) @
           entry ''cookies'' ck @
           entry ''env'' (map_option (\<lambda>kvs. JObj (map (\<lambda>kv. (fst kv, JStr (snd kv))) kvs))
              (chained (request options) req_env))))] @
       entry ''server_name'' (map_option JStr (serverName options)) @
       entry ''transaction'' (map_option JStr (transaction options)) @
       entry ''release'' (map_option JStr (release options)) @
       entry ''dist'' (map_option JStr (dist options)) @
       entry ''environment'' (map_option JStr (environment options)))))"
  using assms
  by (simp add: event_def stringify_optional_Str stringify_optional_level
        stringify_optional_fingerprint stringify_optional_record elements_frames)
     (simp add: entry_def)

text \<open>Nothing else in the event can make \<^verbatim>\<open>JSON.stringify\<close> throw.\<close>

lemma stringify_event_Inl:
  "JSON_stringify (event error trace options) = Inl x \<longleftrightarrow>
     JSON_stringify (optional Obj (extra options)) = Inl x \<or>
     (\<exists>ex. JSON_stringify (optional Obj (extra options)) = Inr ex) \<and>
     JSON_stringify (optional (\<lambda>c. c) (chained (request options) req_cookies)) = Inl x"
  by (simp add: event_def stringify_optional_Str stringify_optional_level
        stringify_optional_fingerprint stringify_optional_record elements_frames
        split: sum.splits)


lemma event_serialised:
  assumes "JSON_stringify (event error trace options) = Inr s"
  obtains ex ck where "JSON_stringify (optional Obj (extra options)) = Inr ex"
    and "JSON_stringify (optional (\<lambda>c. c) (chained (request options) req_cookies)) = Inr ck"
proof (cases "JSON_stringify (optional Obj (extra options))")
  case (Inl x)
  then have "JSON_stringify (event error trace options) = Inl x"
    by (simp add: stringify_event_Inl)
  with assms show ?thesis by simp
next
  case ex: (Inr ex)
  show ?thesis
  proof (cases "JSON_stringify (optional (\<lambda>c. c) (chained (request options) req_cookies))")
    case (Inl x)
    with ex have "JSON_stringify (event error trace options) = Inl x"
      by (simp add: stringify_event_Inl)
    with assms show ?thesis by simp
  next
    case (Inr ck)
    with ex that show ?thesis by blast
  qed
qed

lemma event_exception:
  assumes "JSON_stringify (event error trace options) = Inr s"
  shows "\<exists>doc. s = Some doc \<and>
     at_path doc [''exception'', ''values''] =
       Some (JArr [JObj [(''type'', JStr (name error)), (''value'', JStr (message error)),
          (''stacktrace'', JObj [(''frames'',
             JArr (map (\<lambda>c. case JSON_stringify (frame c) of Inr (Some j) \<Rightarrow> j | _ \<Rightarrow> JNull) trace))])]])"
proof -
  from assms obtain ex ck where "JSON_stringify (optional Obj (extra options)) = Inr ex"
    and "JSON_stringify (optional (\<lambda>c. c) (chained (request options) req_cookies)) = Inr ck"
    by (rule event_serialised)
  from stringify_event [OF this, of error trace] assms show ?thesis
    by (auto simp: map_of_entry simp del: map_of_append)
qed

text \<open>
  The ways out of the extractor. When the formatter returns, or no frames were captured,
  the global hook is the one found at entry; when the formatter throws, the arrow function
  stays installed.
\<close>

lemma getErrorStack_eq:
  "getErrorStack w here error =
     (if stackTraceLimit_is_number w then
        (case call_hook (Capture_hook (prepareStackTrace w)) (error\<lparr>stack := Unformatted here\<rparr>) here of
           Inl x \<Rightarrow>
             (w\<lparr>prepareStackTrace := Some (Capture_hook (prepareStackTrace w))\<rparr>,
              error\<lparr>stack := Unformatted here\<rparr>, Inl x)
         | Inr v \<Rightarrow> (w, error\<lparr>stack := Formatted v\<rparr>, Inr (Some here)))
      else (w, error\<lparr>stack := Formatted Undefined\<rparr>, Inr None))"
  by (simp add: getErrorStack_def capture_arrow_def Let_def split: sum.splits)

lemma getErrorStack_Inr:
  assumes "getErrorStack w here error = (w1, error1, Inr t)"
  shows "w1 = w"
  using assms by (auto simp: getErrorStack_eq split: sum.splits if_splits)

lemma getErrorStack_Inl:
  assumes "getErrorStack w here error = (w1, error1, Inl x)"
  shows "fetch_calls w1 = fetch_calls w"
  using assms by (auto simp: getErrorStack_eq split: sum.splits if_splits)

text \<open>Every way through \<^verbatim>\<open>captureException\<close>.\<close>

lemma captureException_eq:
  "captureException this w here error options =
     (if stackTraceLimit_is_number w then
        (case call_hook (Capture_hook (prepareStackTrace w)) (error\<lparr>stack := Unformatted here\<rparr>) here of
           Inl x \<Rightarrow>
             (w\<lparr>prepareStackTrace := Some (Capture_hook (prepareStackTrace w))\<rparr>,
              error\<lparr>stack := Unformatted here\<rparr>, Inl x)
         | Inr v \<Rightarrow>
             (case JSON_stringify (event error here options) of
                Inl x \<Rightarrow> (w, error\<lparr>stack := Formatted v\<rparr>, Inl x)
              | Inr s \<Rightarrow>
                  (w\<lparr>fetch_calls := fetch_calls w @ [sentry_request this s]\<rparr>,
                   error\<lparr>stack := Formatted v\<rparr>,
                   Inr (fetch this (sentry_request this s)))))
      else (w, error\<lparr>stack := Formatted Undefined\<rparr>,
            Inl (TypeError ''Cannot read properties of undefined (reading 'map')'')))"
  by (simp add: captureException_def getErrorStack_eq Let_def split: sum.splits)

lemma captureException_sent:
  assumes "captureException this w here error options = (w', error', Inr p)"
  obtains s where "JSON_stringify (event error here options) = Inr s"
    and "fetch_calls w' = fetch_calls w @ [sentry_request this s]"
    and "p = fetch this (sentry_request this s)"
  using assms by (auto simp: captureException_eq split: sum.splits if_splits)


lemma body_sentry_request:
  "body (sentry_request this s) = s"
  by (simp add: sentry_request_def)

text \<open>The event of the first test serialises; so does the one of the second.\<close>

lemma serialises_no_options:
  "\<exists>s. JSON_stringify (event error trace no_options) = Inr s"
  by (rule exI, rule stringify_event) (simp_all add: no_options_def optional_def chained_def)

lemma serialises_all_properties:
  "\<exists>s. JSON_stringify (event error trace (all_properties\<lparr>modules := m\<rparr>)) = Inr s"
  by (rule exI, rule stringify_event)
     (simp_all add: all_properties_def optional_def chained_def entry_def)

text \<open>The run of the tests: one request, the promise of the mocked transport.\<close>

lemma test_run:
  assumes "JSON_stringify (event Boom here options) = Inr s"
  shows "captureException test_sentry quiet_world here Boom options =
     (quiet_world\<lparr>fetch_calls := [sentry_request test_sentry s]\<rparr>,
      Boom\<lparr>stack := Formatted Undefined\<rparr>,
      Inr (Resolved \<lparr>status = 200\<rparr>))"
  using assms
  by (simp add: captureException_eq quiet_world_def test_sentry_def test_fetch_def)

lemma run_triple:
  "snd (snd run) = outcome \<Longrightarrow> run = (fst run, fst (snd run), outcome)"
  by (cases run) auto

lemma test_run_no_options:
  "snd (snd (captureException test_sentry quiet_world here Boom no_options))
     = Inr (Resolved \<lparr>status = 200\<rparr>)"
  using serialises_no_options [of Boom here] by (auto simp: test_run)

lemma test_run_all_properties:
  "snd (snd (captureException test_sentry quiet_world here Boom all_properties))
     = Inr (Resolved \<lparr>status = 200\<rparr>)"
  using serialises_all_properties [of Boom here "modules all_properties"]
  by (auto simp: test_run)

lemma test_construction:
  "Sentry_new test_URL_new global_fetch \<lparr>dsn = test_dsn, fetch_option = Some test_fetch\<rparr>
     = Inr test_sentry"
  by (simp add: Sentry_new_def test_URL_new_def test_sentry_def)

subsection \<open>The request line\<close>

text \<open>
  C1, as the code has it: for every client constructed from a connection string and every
  call to \<^verbatim>\<open>captureException\<close> that sends a request, the request's URL is
  \<^verbatim>\<open>https://sentry.io/api<project-path>/store/\<close>: the host is the fixed \<^verbatim>\<open>sentry.io\<close>,
  whatever host the connection string names, and \<^verbatim>\<open><project-path>\<close> is the path component
  of the connection string given at construction.
\<close>

theorem request_url_sentry_io:
  assumes "Sentry_new URL_new global_fetch opts = Inr this"
    and "captureException this w here error options = (w', error', Inr p)"
  shows "\<exists>u req. URL_new (dsn opts) = Inr u \<and> sentryUrl this = u \<and>
           fetch_calls w' = fetch_calls w @ [req] \<and>
           url req = ''https://sentry.io/api'' @ pathname u @ ''/store/''"
proof -
  from assms(1) obtain u where u: "URL_new (dsn opts) = Inr u" "sentryUrl this = u"
    by (auto simp: Sentry_new_def split: sum.splits)
  from assms(2) obtain s where
    "fetch_calls w' = fetch_calls w @ [sentry_request this s]"
    by (rule captureException_sent)
  moreover have "url (sentry_request this s) = ''https://sentry.io/api'' @ pathname u @ ''/store/''"
    using u(2) by (simp add: sentry_request_def)
  ultimately show ?thesis using u by blast
qed

theorem request_url_sentry_io_witness:
  "Sentry_new test_URL_new failing_fetch \<lparr>dsn = test_dsn, fetch_option = Some test_fetch\<rparr>
     = Inr test_sentry \<and>
   snd (snd (captureException test_sentry quiet_world report_stack Boom no_options))
     = Inr (Resolved \<lparr>status = 200\<rparr>) \<and>
   map url (fetch_calls (fst (captureException test_sentry quiet_world report_stack Boom no_options)))
     = [''https://sentry.io/api/789/store/'']"
proof -
  let ?run = "captureException test_sentry quiet_world report_stack Boom no_options"
  have c: "Sentry_new test_URL_new failing_fetch \<lparr>dsn = test_dsn, fetch_option = Some test_fetch\<rparr>
     = Inr test_sentry"
    by (rule test_construction)
  have r: "?run = (fst ?run, fst (snd ?run), Inr (Resolved \<lparr>status = 200\<rparr>))"
    by (rule run_triple) (rule test_run_no_options)
  from request_url_sentry_io [OF c r]
  have "map url (fetch_calls (fst ?run)) = [''https://sentry.io/api/789/store/'']"
    by (auto simp: test_dsn_def test_URL_new_def test_URL_def quiet_world_def)
  with c show ?thesis
    by (simp add: test_run_no_options)
qed

text \<open>
  C1 as stated fails: the client of the test suite is configured with the host
  \<^verbatim>\<open>456.ingest.sentry.io\<close>, and its request goes to \<^verbatim>\<open>https://sentry.io/api/789/store/\<close>,
  as the tests expect.
\<close>

theorem request_url_host_counterexample:
  "map url (fetch_calls (fst (captureException test_sentry quiet_world report_stack Boom no_options)))
     = [''https://sentry.io/api/789/store/''] \<and>
   ''https://'' @ host (sentryUrl test_sentry) @ ''/api'' @ pathname (sentryUrl test_sentry) @ ''/store/''
     = ''https://456.ingest.sentry.io/api/789/store/'' \<and>
   map url (fetch_calls (fst (captureException test_sentry quiet_world report_stack Boom no_options)))
     \<noteq> [''https://'' @ host (sentryUrl test_sentry) @ ''/api'' @ pathname (sentryUrl test_sentry) @ ''/store/'']"
proof -
  obtain s where "JSON_stringify (event Boom report_stack no_options) = Inr s"
    using serialises_no_options by blast
  then show ?thesis
    by (simp add: test_run) (simp add: sentry_request_def test_sentry_def test_URL_def)
qed


text \<open>
  C9: every request sent by a client constructed from a connection string carries the header
  \<^verbatim>\<open>Content-Type: application/json\<close>, the fixed client identifier
  \<^verbatim>\<open>User-Agent: Cloudflare-Worker/1.0\<close>, and \<^verbatim>\<open>X-Sentry-Auth\<close> of the form
  \<^verbatim>\<open>Sentry sentry_version=7, sentry_client=Cloudflare-Worker/1.0, sentry_key=<credential>\<close>,
  the credential being the username component of the connection string given at
  construction.
\<close>

theorem request_headers_fixed:
  assumes "Sentry_new URL_new global_fetch opts = Inr this"
    and "captureException this w here error options = (w', error', Inr p)"
  shows "\<exists>u req. URL_new (dsn opts) = Inr u \<and> sentryUrl this = u \<and>
           fetch_calls w' = fetch_calls w @ [req] \<and>
           headers req =
             [(''Content-Type'', ''application/json''),
              (''User-Agent'', ''Cloudflare-Worker/1.0''),
              (''X-Sentry-Auth'',
                 ''Sentry sentry_version=7, sentry_client=Cloudflare-Worker/1.0, sentry_key=''
                   @ username u)]"
proof -
  from assms(1) obtain u where u: "URL_new (dsn opts) = Inr u" "sentryUrl this = u"
    by (auto simp: Sentry_new_def split: sum.splits)
  from assms(2) obtain s where
    "fetch_calls w' = fetch_calls w @ [sentry_request this s]"
    by (rule captureException_sent)
  moreover have "headers (sentry_request this s) =
      [(''Content-Type'', ''application/json''),
       (''User-Agent'', ''Cloudflare-Worker/1.0''),
       (''X-Sentry-Auth'',
          ''Sentry sentry_version=7, sentry_client=Cloudflare-Worker/1.0, sentry_key=''
            @ username u)]"
    using u(2) by (simp add: sentry_request_def)
  ultimately show ?thesis using u by blast
qed

theorem request_headers_fixed_witness:
  "Sentry_new test_URL_new failing_fetch \<lparr>dsn = test_dsn, fetch_option = Some test_fetch\<rparr>
     = Inr test_sentry \<and>
   test_URL_new test_dsn = Inr test_URL \<and> username test_URL = ''123'' \<and>
   snd (snd (captureException test_sentry quiet_world report_stack Boom all_properties))
     = Inr (Resolved \<lparr>status = 200\<rparr>) \<and>
   map headers (fetch_calls (fst (captureException test_sentry quiet_world report_stack Boom all_properties)))
     = [(''Content-Type'', ''application/json''),
        (''User-Agent'', ''Cloudflare-Worker/1.0''),
        (''X-Sentry-Auth'',
           ''Sentry sentry_version=7, sentry_client=Cloudflare-Worker/1.0, sentry_key=123'')] # []"
proof -
  let ?run = "captureException test_sentry quiet_world report_stack Boom all_properties"
  have c: "Sentry_new test_URL_new failing_fetch \<lparr>dsn = test_dsn, fetch_option = Some test_fetch\<rparr>
     = Inr test_sentry"
    by (rule test_construction)
  have p: "test_URL_new test_dsn = Inr test_URL" "username test_URL = ''123''"
    by (simp_all add: test_URL_new_def test_URL_def)
  have r: "?run = (fst ?run, fst (snd ?run), Inr (Resolved \<lparr>status = 200\<rparr>))"
    by (rule run_triple) (rule test_run_all_properties)
  from request_headers_fixed [OF c r]
  have "map headers (fetch_calls (fst ?run)) =
      [(''Content-Type'', ''application/json''),
       (''User-Agent'', ''Cloudflare-Worker/1.0''),
       (''X-Sentry-Auth'',
          ''Sentry sentry_version=7, sentry_client=Cloudflare-Worker/1.0, sentry_key=123'')] # []"
    by (auto simp: p quiet_world_def)
  with c p show ?thesis
    by (simp add: test_run_all_properties)
qed

subsection \<open>Failure of the stack extraction\<close>

lemma throwing_extraction:
  "getErrorStack throwing_world here error =
     (throwing_world\<lparr>prepareStackTrace := Some (Capture_hook (Some throwing_formatter))\<rparr>,
      error\<lparr>stack := Unformatted here\<rparr>,
      Inl (Thrown (Str ''formatter failed'')))"
  by (simp add: getErrorStack_eq throwing_world_def throwing_formatter_def)

lemma quiet_extraction:
  "getErrorStack quiet_world here error =
     (quiet_world, error\<lparr>stack := Formatted Undefined\<rparr>, Inr (Some here))"
  by (simp add: getErrorStack_eq quiet_world_def)


text \<open>
  C4: if the stack extraction raises during a call to \<^verbatim>\<open>captureException\<close>, the call fails
  with that exception and the transport is not invoked: the list of requests handed to a
  transport is the one from before the call.
\<close>

theorem extraction_failure_sends_nothing:
  assumes "getErrorStack w here error = (w1, error1, Inl x)"
  shows "captureException this w here error options = (w1, error1, Inl x) \<and>
         fetch_calls w1 = fetch_calls w"
  using assms getErrorStack_Inl [OF assms] by (simp add: captureException_def)

theorem extraction_failure_sends_nothing_witness:
  "snd (snd (getErrorStack throwing_world report_stack Boom)) = Inl (Thrown (Str ''formatter failed'')) \<and>
   snd (snd (captureException test_sentry throwing_world report_stack Boom all_properties))
     = Inl (Thrown (Str ''formatter failed'')) \<and>
   fetch_calls (fst (captureException test_sentry throwing_world report_stack Boom all_properties)) = []"
proof -
  let ?ex = "getErrorStack throwing_world report_stack Boom"
  have e: "?ex = (fst ?ex, fst (snd ?ex), Inl (Thrown (Str ''formatter failed'')))"
    by (simp add: throwing_extraction)
  from extraction_failure_sends_nothing [OF e, of test_sentry all_properties]
  have "captureException test_sentry throwing_world report_stack Boom all_properties
          = (fst ?ex, fst (snd ?ex), Inl (Thrown (Str ''formatter failed'')))"
    and "fetch_calls (fst ?ex) = fetch_calls throwing_world"
    by simp_all
  then show ?thesis
    by (simp add: throwing_extraction) (simp add: throwing_world_def)
qed

text \<open>
  C3, at a process whose installed formatter throws: \<^verbatim>\<open>getErrorStack\<close> leaves by that
  exception at line 43, line 44 is not reached, and the global hook is the arrow function
  of \<^verbatim>\<open>getErrorStack\<close> instead of the formatter found at entry.
\<close>

theorem hook_left_installed_when_formatter_throws:
  "snd (snd (getErrorStack throwing_world report_stack Boom)) = Inl (Thrown (Str ''formatter failed'')) \<and>
   prepareStackTrace throwing_world = Some throwing_formatter \<and>
   prepareStackTrace (fst (getErrorStack throwing_world report_stack Boom))
     = Some (Capture_hook (Some throwing_formatter)) \<and>
   prepareStackTrace (fst (getErrorStack throwing_world report_stack Boom))
     \<noteq> prepareStackTrace throwing_world"
  unfolding throwing_extraction by (simp add: throwing_world_def throwing_formatter_def)

subsection \<open>The transport\<close>







subsection \<open>The document\<close>

text \<open>
  C5: for every error with name \<open>n\<close> and message \<open>m\<close> passed to \<^verbatim>\<open>captureException\<close>, the
  document sent has, at \<^verbatim>\<open>exception.values\<close>, a list of one element, whose \<^verbatim>\<open>type\<close> is
  \<open>n\<close> and whose \<^verbatim>\<open>value\<close> is \<open>m\<close>.
\<close>

theorem exception_values_type_and_value:
  assumes "captureException this w here error options = (w', error', Inr p)"
  shows "\<exists>req doc frames.
           fetch_calls w' = fetch_calls w @ [req] \<and> body req = Some doc \<and>
           at_path doc [''exception'', ''values''] =
             Some (JArr [JObj [(''type'', JStr (name error)), (''value'', JStr (message error)),
                               (''stacktrace'', frames)]])"
proof -
  from assms obtain s where s: "JSON_stringify (event error here options) = Inr s"
    and calls: "fetch_calls w' = fetch_calls w @ [sentry_request this s]"
    by (rule captureException_sent)
  from event_exception [OF s] calls show ?thesis
    by (auto simp: body_sentry_request)
qed

theorem exception_values_type_and_value_witness:
  "snd (snd (captureException test_sentry quiet_world report_stack Boom no_options))
     = Inr (Resolved \<lparr>status = 200\<rparr>) \<and>
   (\<exists>req doc frames.
      fetch_calls (fst (captureException test_sentry quiet_world report_stack Boom no_options)) = [req] \<and>
      body req = Some doc \<and>
      at_path doc [''exception'', ''values''] =
        Some (JArr [JObj [(''type'', JStr ''Error''), (''value'', JStr ''Boom!''),
                          (''stacktrace'', frames)]]))"
proof -
  let ?run = "captureException test_sentry quiet_world report_stack Boom no_options"
  have r: "?run = (fst ?run, fst (snd ?run), Inr (Resolved \<lparr>status = 200\<rparr>))"
    by (rule run_triple) (rule test_run_no_options)
  have "fetch_calls quiet_world = []" "name Boom = ''Error''" "message Boom = ''Boom!''"
    by (simp_all add: quiet_world_def Boom_def)
  with exception_values_type_and_value [OF r] show ?thesis
    by (simp add: test_run_no_options)
qed

text \<open>
  C6: for every frame of the extracted stack, in order, the frame descriptor sent has
  \<^verbatim>\<open>in_app\<close> equal to the negation of the call site's native flag, and \<^verbatim>\<open>function\<close>,
  \<^verbatim>\<open>filename\<close>, \<^verbatim>\<open>lineno\<close> and \<^verbatim>\<open>colno\<close> equal to what the call site's getters return:
  the value itself, \<^verbatim>\<open>null\<close> where the getter returns \<^verbatim>\<open>null\<close>, and no such key where it
  returns \<^verbatim>\<open>undefined\<close>.
\<close>

theorem frames_pass_call_sites_through:
  assumes "captureException this w here error options = (w', error', Inr p)"
  shows "\<exists>w1 error1 trace req doc v fs.
           getErrorStack w here error = (w1, error1, Inr (Some trace)) \<and>
           fetch_calls w' = fetch_calls w @ [req] \<and>
           body req = Some doc \<and>
           at_path doc [''exception'', ''values''] = Some (JArr [v]) \<and>
           at_path v [''stacktrace'', ''frames''] = Some (JArr fs) \<and>
           length fs = length trace \<and>
           (\<forall>i<length trace.
              member (fs ! i) ''in_app'' = Some (JBool (\<not> isNative (trace ! i))) \<and>
              member (fs ! i) ''function'' =
                (case getFunctionName (trace ! i) of Returned_undefined \<Rightarrow> None
                 | Returned_null \<Rightarrow> Some JNull | Returned f \<Rightarrow> Some (JStr f)) \<and>
              member (fs ! i) ''filename'' =
                (case getFileName (trace ! i) of Returned_undefined \<Rightarrow> None
                 | Returned_null \<Rightarrow> Some JNull | Returned f \<Rightarrow> Some (JStr f)) \<and>
              member (fs ! i) ''lineno'' =
                (case getLineNumber (trace ! i) of Returned_undefined \<Rightarrow> None
                 | Returned_null \<Rightarrow> Some JNull | Returned n \<Rightarrow> Some (JNum n)) \<and>
              member (fs ! i) ''colno'' =
                (case getColumnNumber (trace ! i) of Returned_undefined \<Rightarrow> None
                 | Returned_null \<Rightarrow> Some JNull | Returned n \<Rightarrow> Some (JNum n)))"
proof -
  let ?fs = "map (\<lambda>c. case JSON_stringify (frame c) of Inr (Some j) \<Rightarrow> j | _ \<Rightarrow> JNull) here"
  let ?v = "JObj [(''type'', JStr (name error)), (''value'', JStr (message error)),
                  (''stacktrace'', JObj [(''frames'', JArr ?fs)])]"
  from assms obtain s where s: "JSON_stringify (event error here options) = Inr s"
    and calls: "fetch_calls w' = fetch_calls w @ [sentry_request this s]"
    by (rule captureException_sent)
  from assms obtain w1 error1 where ex: "getErrorStack w here error = (w1, error1, Inr (Some here))"
    by (auto simp: captureException_eq getErrorStack_eq split: sum.splits if_splits)
  from event_exception [OF s] obtain doc where doc: "body (sentry_request this s) = Some doc"
      "at_path doc [''exception'', ''values''] = Some (JArr [?v])"
    by (auto simp: body_sentry_request)
  have path: "at_path ?v [''stacktrace'', ''frames''] = Some (JArr ?fs)"
    by simp
  have len: "length ?fs = length here"
    by simp
  have fields: "\<forall>i<length here.
      member (?fs ! i) ''in_app'' = Some (JBool (\<not> isNative (here ! i))) \<and>
      member (?fs ! i) ''function'' =
        (case getFunctionName (here ! i) of Returned_undefined \<Rightarrow> None
         | Returned_null \<Rightarrow> Some JNull | Returned f \<Rightarrow> Some (JStr f)) \<and>
      member (?fs ! i) ''filename'' =
        (case getFileName (here ! i) of Returned_undefined \<Rightarrow> None
         | Returned_null \<Rightarrow> Some JNull | Returned f \<Rightarrow> Some (JStr f)) \<and>
      member (?fs ! i) ''lineno'' =
        (case getLineNumber (here ! i) of Returned_undefined \<Rightarrow> None
         | Returned_null \<Rightarrow> Some JNull | Returned n \<Rightarrow> Some (JNum n)) \<and>
      member (?fs ! i) ''colno'' =
        (case getColumnNumber (here ! i) of Returned_undefined \<Rightarrow> None
         | Returned_null \<Rightarrow> Some JNull | Returned n \<Rightarrow> Some (JNum n))"
    by (simp add: stringify_frame map_of_entry del: map_of_append)
       (auto simp: entry_def split: returned.splits)
  from ex calls doc path len fields show ?thesis
    by blast
qed

theorem frames_pass_call_sites_through_witness:
  "snd (snd (captureException test_sentry quiet_world [report_site, eval_site, native_site]
      Boom no_options)) = Inr (Resolved \<lparr>status = 200\<rparr>) \<and>
   snd (snd (getErrorStack quiet_world [report_site, eval_site, native_site] Boom))
     = Inr (Some [report_site, eval_site, native_site]) \<and>
   (\<exists>req doc v fs.
      fetch_calls (fst (captureException test_sentry quiet_world
         [report_site, eval_site, native_site] Boom no_options)) = [req] \<and>
      body req = Some doc \<and>
      at_path doc [''exception'', ''values''] = Some (JArr [v]) \<and>
      at_path v [''stacktrace'', ''frames''] = Some (JArr fs) \<and>
      length fs = 3 \<and>
      member (fs ! 0) ''in_app'' = Some (JBool True) \<and>
      member (fs ! 0) ''function'' = Some (JStr ''captureException'') \<and>
      member (fs ! 0) ''filename'' = Some (JStr ''/worker-sentry/src/index.ts'') \<and>
      member (fs ! 0) ''lineno'' = Some (JNum 183) \<and>
      member (fs ! 0) ''colno'' = Some (JNum 27) \<and>
      member (fs ! 1) ''in_app'' = Some (JBool True) \<and>
      member (fs ! 1) ''function'' = Some (JStr ''eval'') \<and>
      member (fs ! 1) ''filename'' = None \<and>
      member (fs ! 2) ''in_app'' = Some (JBool False) \<and>
      member (fs ! 2) ''function'' = Some JNull \<and>
      member (fs ! 2) ''filename'' = Some JNull \<and>
      member (fs ! 2) ''lineno'' = Some JNull \<and>
      member (fs ! 2) ''colno'' = Some JNull)"
proof -
  let ?trace = "[report_site, eval_site, native_site]"
  let ?run = "captureException test_sentry quiet_world ?trace Boom no_options"
  have out: "snd (snd ?run) = Inr (Resolved \<lparr>status = 200\<rparr>)"
    by (rule test_run_no_options)
  have ex: "getErrorStack quiet_world ?trace Boom =
      (quiet_world, Boom\<lparr>stack := Formatted Undefined\<rparr>, Inr (Some ?trace))"
    by (rule quiet_extraction)
  have q: "fetch_calls quiet_world = []"
    by (simp add: quiet_world_def)
  from frames_pass_call_sites_through [OF run_triple [OF out]]
  obtain req doc v fs where
    calls: "fetch_calls (fst ?run) = fetch_calls quiet_world @ [req]"
    and doc: "body req = Some doc" "at_path doc [''exception'', ''values''] = Some (JArr [v])"
      "at_path v [''stacktrace'', ''frames''] = Some (JArr fs)" "length fs = length ?trace"
    and fields: "\<forall>i<length ?trace.
      member (fs ! i) ''in_app'' = Some (JBool (\<not> isNative (?trace ! i))) \<and>
      member (fs ! i) ''function'' =
        (case getFunctionName (?trace ! i) of Returned_undefined \<Rightarrow> None
         | Returned_null \<Rightarrow> Some JNull | Returned f \<Rightarrow> Some (JStr f)) \<and>
      member (fs ! i) ''filename'' =
        (case getFileName (?trace ! i) of Returned_undefined \<Rightarrow> None
         | Returned_null \<Rightarrow> Some JNull | Returned f \<Rightarrow> Some (JStr f)) \<and>
      member (fs ! i) ''lineno'' =
        (case getLineNumber (?trace ! i) of Returned_undefined \<Rightarrow> None
         | Returned_null \<Rightarrow> Some JNull | Returned n \<Rightarrow> Some (JNum n)) \<and>
      member (fs ! i) ''colno'' =
        (case getColumnNumber (?trace ! i) of Returned_undefined \<Rightarrow> None
         | Returned_null \<Rightarrow> Some JNull | Returned n \<Rightarrow> Some (JNum n))"
    unfolding ex by auto
  from fields have f0: "member (fs ! 0) ''in_app'' = Some (JBool True)"
      "member (fs ! 0) ''function'' = Some (JStr ''captureException'')"
      "member (fs ! 0) ''filename'' = Some (JStr ''/worker-sentry/src/index.ts'')"
      "member (fs ! 0) ''lineno'' = Some (JNum 183)"
      "member (fs ! 0) ''colno'' = Some (JNum 27)"
    by (simp_all add: report_site_def)
  from fields have "member (fs ! 1) ''in_app'' = Some (JBool (\<not> isNative (?trace ! 1))) \<and>
      member (fs ! 1) ''function'' =
        (case getFunctionName (?trace ! 1) of Returned_undefined \<Rightarrow> None
         | Returned_null \<Rightarrow> Some JNull | Returned f \<Rightarrow> Some (JStr f)) \<and>
      member (fs ! 1) ''filename'' =
        (case getFileName (?trace ! 1) of Returned_undefined \<Rightarrow> None
         | Returned_null \<Rightarrow> Some JNull | Returned f \<Rightarrow> Some (JStr f))"
    by simp
  then have f1: "member (fs ! 1) ''in_app'' = Some (JBool True)"
      "member (fs ! 1) ''function'' = Some (JStr ''eval'')"
      "member (fs ! 1) ''filename'' = None"
    by (simp_all add: eval_site_def)
  from fields have "member (fs ! 2) ''in_app'' = Some (JBool (\<not> isNative (?trace ! 2))) \<and>
      member (fs ! 2) ''function'' =
        (case getFunctionName (?trace ! 2) of Returned_undefined \<Rightarrow> None
         | Returned_null \<Rightarrow> Some JNull | Returned f \<Rightarrow> Some (JStr f)) \<and>
      member (fs ! 2) ''filename'' =
        (case getFileName (?trace ! 2) of Returned_undefined \<Rightarrow> None
         | Returned_null \<Rightarrow> Some JNull | Returned f \<Rightarrow> Some (JStr f)) \<and>
      member (fs ! 2) ''lineno'' =
        (case getLineNumber (?trace ! 2) of Returned_undefined \<Rightarrow> None
         | Returned_null \<Rightarrow> Some JNull | Returned n \<Rightarrow> Some (JNum n)) \<and>
      member (fs ! 2) ''colno'' =
        (case getColumnNumber (?trace ! 2) of Returned_undefined \<Rightarrow> None
         | Returned_null \<Rightarrow> Some JNull | Returned n \<Rightarrow> Some (JNum n))"
    by simp
  then have f2: "member (fs ! 2) ''in_app'' = Some (JBool False)"
      "member (fs ! 2) ''function'' = Some JNull"
      "member (fs ! 2) ''filename'' = Some JNull"
      "member (fs ! 2) ''lineno'' = Some JNull"
      "member (fs ! 2) ''colno'' = Some JNull"
    by (simp_all add: native_site_def)
  have c: "fetch_calls (fst ?run) = [req]"
    using calls by (simp add: q)
  have len: "length fs = 3"
    using doc(4) by simp
  have e: "snd (snd (getErrorStack quiet_world ?trace Boom)) = Inr (Some ?trace)"
    by (simp add: ex)
  from out e c doc(1-3) len f0 f1 f2 show ?thesis
    by blast
qed


lemma event_unset:
  assumes "JSON_stringify (event error trace options) = Inr s"
  shows "\<exists>doc u r.
     s = Some doc \<and>
     (level options = None \<longrightarrow> member doc ''level'' = None) \<and>
     (extra options = None \<longrightarrow> member doc ''extra'' = None) \<and>
     (fingerprint options = None \<longrightarrow> member doc ''fingerprint'' = None) \<and>
     (tags options = None \<longrightarrow> member doc ''tags'' = None) \<and>
     (serverName options = None \<longrightarrow> member doc ''server_name'' = None) \<and>
     (transaction options = None \<longrightarrow> member doc ''transaction'' = None) \<and>
     (release options = None \<longrightarrow> member doc ''release'' = None) \<and>
     (dist options = None \<longrightarrow> member doc ''dist'' = None) \<and>
     (environment options = None \<longrightarrow> member doc ''environment'' = None) \<and>
     (modules options = None \<longrightarrow> member doc ''modules'' = None) \<and>
     (breadcrumbs options = None \<longrightarrow> member doc ''breadcrumbs'' = None) \<and>
     member doc ''user'' = Some (JObj u) \<and>
     (chained (user options) user_id = None \<longrightarrow> map_of u ''id'' = None) \<and>
     (chained (user options) user_email = None \<longrightarrow> map_of u ''email'' = None) \<and>
     (chained (user options) user_username = None \<longrightarrow> map_of u ''username'' = None) \<and>
     (chained (user options) user_ip = None \<longrightarrow> map_of u ''ip_address'' = None) \<and>
     (user options = None \<longrightarrow> u = []) \<and>
     member doc ''request'' = Some (JObj r) \<and>
     (chained (request options) req_url = None \<longrightarrow> map_of r ''url'' = None) \<and>
     (chained (request options) req_method = None \<longrightarrow> map_of r ''method'' = None) \<and>
     (chained (request options) req_headers = None \<longrightarrow> map_of r ''headers'' = None) \<and>
     (chained (request options) req_query = None \<longrightarrow> map_of r ''query_string'' = None) \<and>
     (chained (request options) req_cookies = None \<longrightarrow> map_of r ''cookies'' = None) \<and>
     (chained (request options) req_env = None \<longrightarrow> map_of r ''env'' = None) \<and>
     (request options = None \<longrightarrow> r = [])"
proof -
  from assms obtain ex ck where ex: "JSON_stringify (optional Obj (extra options)) = Inr ex"
    and ck: "JSON_stringify (optional (\<lambda>c. c) (chained (request options) req_cookies)) = Inr ck"
    by (rule event_serialised)
  have none: "extra options = None \<longrightarrow> ex = None"
      "chained (request options) req_cookies = None \<longrightarrow> ck = None"
    using ex ck by (auto simp: optional_def)
  from stringify_event [OF ex ck, of error trace] assms
  have s: "s = Some (JObj (
       [(''logger'', JStr ''worker''), (''platform'', JStr ''javascript'')] @
       entry ''level'' (map_option (\<lambda>l. JStr (level_string l)) (level options)) @
       entry ''extra'' ex @
       entry ''fingerprint'' (map_option (\<lambda>fp. JArr (map JStr fp)) (fingerprint options)) @
       [(''exception'', JObj [(''values'', JArr [JObj [(''type'', JStr (name error)),
            (''value'', JStr (message error)),
            (''stacktrace'', JObj [(''frames'', JArr (map
               (\<lambda>c. case JSON_stringify (frame c) of Inr (Some j) \<Rightarrow> j | _ \<Rightarrow> JNull) trace))])]])])] @
       entry ''tags'' (map_option (\<lambda>kvs. JObj (map (\<lambda>kv. (fst kv, JStr (snd kv))) kvs)) (tags options)) @
       [(''user'', JObj (
           entry ''id'' (map_option JStr (chained (user options) user_id)) @
           entry ''email'' (map_option JStr (chained (user options) user_email)) @
           entry ''username'' (map_option JStr (chained (user options) user_username)) @
           entry ''ip_address'' (map_option JStr (chained (user options) user_ip))))] @
       [(''request'', JObj (
           entry ''url'' (map_option JStr (chained (request options) req_url)) @
           entry ''method'' (map_option JStr (chained (request options) req_method)) @
           entry ''headers'' (map_option (\<lambda>kvs. JObj (map (\<lambda>kv. (fst kv, JStr (snd kv))) kvs))
              (chained (request options) req_headers)) @
           entry ''query_string'' (map_option JStr (chained (request options) req_query)) @
           entry ''cookies'' ck @
           entry ''env'' (map_option (\<lambda>kvs. JObj (map (\<lambda>kv. (fst kv, JStr (snd kv))) kvs))
              (chained (request options) req_env))))] @
       entry ''server_name'' (map_option JStr (serverName options)) @
       entry ''transaction'' (map_option JStr (transaction options)) @
       entry ''release'' (map_option JStr (release options)) @
       entry ''dist'' (map_option JStr (dist options)) @
       entry ''environment'' (map_option JStr (environment options))))"
    by simp
  show ?thesis
    unfolding s using none
    by (simp add: map_of_entry map_of_entry_last del: map_of_append)
       (simp add: entry_def chained_def)
qed

text \<open>
  C8: for every options object, an optional field that is not set is absent from the
  document sent (its key has no value there, so it is not rendered as \<^verbatim>\<open>null\<close> either):
  the top-level fields under their keys, the fields of \<^verbatim>\<open>user\<close> and \<^verbatim>\<open>request\<close> under
  theirs. The keys \<^verbatim>\<open>user\<close> and \<^verbatim>\<open>request\<close> themselves are always present, each with an
  object, which is empty when the option is not supplied.
\<close>

theorem unset_fields_absent_user_request_present:
  assumes "captureException this w here error options = (w', error', Inr p)"
  shows "\<exists>req. fetch_calls w' = fetch_calls w @ [req] \<and> (\<exists>doc u r.
     body req = Some doc \<and>
     (level options = None \<longrightarrow> member doc ''level'' = None) \<and>
     (extra options = None \<longrightarrow> member doc ''extra'' = None) \<and>
     (fingerprint options = None \<longrightarrow> member doc ''fingerprint'' = None) \<and>
     (tags options = None \<longrightarrow> member doc ''tags'' = None) \<and>
     (serverName options = None \<longrightarrow> member doc ''server_name'' = None) \<and>
     (transaction options = None \<longrightarrow> member doc ''transaction'' = None) \<and>
     (release options = None \<longrightarrow> member doc ''release'' = None) \<and>
     (dist options = None \<longrightarrow> member doc ''dist'' = None) \<and>
     (environment options = None \<longrightarrow> member doc ''environment'' = None) \<and>
     (modules options = None \<longrightarrow> member doc ''modules'' = None) \<and>
     (breadcrumbs options = None \<longrightarrow> member doc ''breadcrumbs'' = None) \<and>
     member doc ''user'' = Some (JObj u) \<and>
     (chained (user options) user_id = None \<longrightarrow> map_of u ''id'' = None) \<and>
     (chained (user options) user_email = None \<longrightarrow> map_of u ''email'' = None) \<and>
     (chained (user options) user_username = None \<longrightarrow> map_of u ''username'' = None) \<and>
     (chained (user options) user_ip = None \<longrightarrow> map_of u ''ip_address'' = None) \<and>
     (user options = None \<longrightarrow> u = []) \<and>
     member doc ''request'' = Some (JObj r) \<and>
     (chained (request options) req_url = None \<longrightarrow> map_of r ''url'' = None) \<and>
     (chained (request options) req_method = None \<longrightarrow> map_of r ''method'' = None) \<and>
     (chained (request options) req_headers = None \<longrightarrow> map_of r ''headers'' = None) \<and>
     (chained (request options) req_query = None \<longrightarrow> map_of r ''query_string'' = None) \<and>
     (chained (request options) req_cookies = None \<longrightarrow> map_of r ''cookies'' = None) \<and>
     (chained (request options) req_env = None \<longrightarrow> map_of r ''env'' = None) \<and>
     (request options = None \<longrightarrow> r = []))"
proof -
  from assms obtain s where s: "JSON_stringify (event error here options) = Inr s"
    and calls: "fetch_calls w' = fetch_calls w @ [sentry_request this s]"
    by (rule captureException_sent)
  show ?thesis
  proof (intro exI [of _ "sentry_request this s"] conjI)
    show "fetch_calls w' = fetch_calls w @ [sentry_request this s]"
      by (rule calls)
  next
    show "\<exists>doc u r.
     body (sentry_request this s) = Some doc \<and>
     (level options = None \<longrightarrow> member doc ''level'' = None) \<and>
     (extra options = None \<longrightarrow> member doc ''extra'' = None) \<and>
     (fingerprint options = None \<longrightarrow> member doc ''fingerprint'' = None) \<and>
     (tags options = None \<longrightarrow> member doc ''tags'' = None) \<and>
     (serverName options = None \<longrightarrow> member doc ''server_name'' = None) \<and>
     (transaction options = None \<longrightarrow> member doc ''transaction'' = None) \<and>
     (release options = None \<longrightarrow> member doc ''release'' = None) \<and>
     (dist options = None \<longrightarrow> member doc ''dist'' = None) \<and>
     (environment options = None \<longrightarrow> member doc ''environment'' = None) \<and>
     (modules options = None \<longrightarrow> member doc ''modules'' = None) \<and>
     (breadcrumbs options = None \<longrightarrow> member doc ''breadcrumbs'' = None) \<and>
     member doc ''user'' = Some (JObj u) \<and>
     (chained (user options) user_id = None \<longrightarrow> map_of u ''id'' = None) \<and>
     (chained (user options) user_email = None \<longrightarrow> map_of u ''email'' = None) \<and>
     (chained (user options) user_username = None \<longrightarrow> map_of u ''username'' = None) \<and>
     (chained (user options) user_ip = None \<longrightarrow> map_of u ''ip_address'' = None) \<and>
     (user options = None \<longrightarrow> u = []) \<and>
     member doc ''request'' = Some (JObj r) \<and>
     (chained (request options) req_url = None \<longrightarrow> map_of r ''url'' = None) \<and>
     (chained (request options) req_method = None \<longrightarrow> map_of r ''method'' = None) \<and>
     (chained (request options) req_headers = None \<longrightarrow> map_of r ''headers'' = None) \<and>
     (chained (request options) req_query = None \<longrightarrow> map_of r ''query_string'' = None) \<and>
     (chained (request options) req_cookies = None \<longrightarrow> map_of r ''cookies'' = None) \<and>
     (chained (request options) req_env = None \<longrightarrow> map_of r ''env'' = None) \<and>
     (request options = None \<longrightarrow> r = [])"
      unfolding body_sentry_request using s by (rule event_unset)
  qed
qed

theorem unset_fields_absent_user_request_present_witness:
  "snd (snd (captureException test_sentry quiet_world report_stack Boom no_options))
     = Inr (Resolved \<lparr>status = 200\<rparr>) \<and>
   (\<exists>req doc.
      fetch_calls (fst (captureException test_sentry quiet_world report_stack Boom no_options)) = [req] \<and>
      body req = Some doc \<and>
      map (member doc) [''level'', ''extra'', ''fingerprint'', ''tags'', ''server_name'',
         ''transaction'', ''release'', ''dist'', ''environment'', ''modules'', ''breadcrumbs'']
        = replicate 11 None \<and>
      member doc ''user'' = Some (JObj []) \<and>
      member doc ''request'' = Some (JObj []))"
proof -
  let ?run = "captureException test_sentry quiet_world report_stack Boom no_options"
  have r: "?run = (fst ?run, fst (snd ?run), Inr (Resolved \<lparr>status = 200\<rparr>))"
    by (rule run_triple) (rule test_run_no_options)
  have q: "fetch_calls quiet_world = []"
    by (simp add: quiet_world_def)
  have unset: "level no_options = None" "extra no_options = None" "fingerprint no_options = None"
      "tags no_options = None" "serverName no_options = None" "transaction no_options = None"
      "release no_options = None" "dist no_options = None" "environment no_options = None"
      "modules no_options = None" "breadcrumbs no_options = None" "user no_options = None"
      "request no_options = None"
    by (simp_all add: no_options_def)
  from unset_fields_absent_user_request_present [OF r]
  have "\<exists>req doc.
      fetch_calls (fst ?run) = [req] \<and> body req = Some doc \<and>
      map (member doc) [''level'', ''extra'', ''fingerprint'', ''tags'', ''server_name'',
         ''transaction'', ''release'', ''dist'', ''environment'', ''modules'', ''breadcrumbs'']
        = replicate 11 None \<and>
      member doc ''user'' = Some (JObj []) \<and>
      member doc ''request'' = Some (JObj [])"
    by (simp add: q unset numeral_eq_Suc)
  then show ?thesis
    by (simp add: test_run_no_options)
qed


text \<open>No document has the keys \<^verbatim>\<open>breadcrumbs\<close> or \<^verbatim>\<open>modules\<close>, whatever the options hold.\<close>

lemma breadcrumbs_and_modules_not_sent:
  assumes "JSON_stringify (event error trace options) = Inr s"
  shows "\<exists>doc. s = Some doc \<and>
     member doc ''breadcrumbs'' = None \<and> member doc ''modules'' = None"
proof -
  from assms obtain ex ck where "JSON_stringify (optional Obj (extra options)) = Inr ex"
    and "JSON_stringify (optional (\<lambda>c. c) (chained (request options) req_cookies)) = Inr ck"
    by (rule event_serialised)
  from stringify_event [OF this, of error trace] assms show ?thesis
    by (auto simp: map_of_entry map_of_entry_last simp del: map_of_append)
qed

text \<open>
  C2, at the options of the test \<^verbatim>\<open>should send all properties\<close> with \<^verbatim>\<open>modules\<close> set as
  well: they hold one breadcrumb and one module, and the document sent has the keys below,
  \<^verbatim>\<open>breadcrumbs\<close> and \<^verbatim>\<open>modules\<close> not among them, where that test expects \<^verbatim>\<open>breadcrumbs\<close>
  between \<^verbatim>\<open>request\<close> and \<^verbatim>\<open>server_name\<close>.
\<close>

theorem breadcrumbs_and_modules_dropped_from_document:
  "map_option length (breadcrumbs (all_properties\<lparr>modules := Some [(''lodash'', ''4.17.21'')]\<rparr>))
     = Some 1 \<and>
   modules (all_properties\<lparr>modules := Some [(''lodash'', ''4.17.21'')]\<rparr>)
     = Some [(''lodash'', ''4.17.21'')] \<and>
   map (\<lambda>req. map_option keys (body req))
     (fetch_calls (fst (captureException test_sentry quiet_world report_stack Boom
        (all_properties\<lparr>modules := Some [(''lodash'', ''4.17.21'')]\<rparr>))))
     = [Some [''logger'', ''platform'', ''level'', ''extra'', ''fingerprint'', ''exception'',
              ''tags'', ''user'', ''request'', ''server_name'', ''transaction'', ''release'',
              ''dist'', ''environment'']]"
proof -
  let ?options = "all_properties\<lparr>modules := Some [(''lodash'', ''4.17.21'')]\<rparr>"
  have ex: "JSON_stringify (optional Obj (extra ?options)) = Inr (Some (JObj [(''test'', JBool True)]))"
    by (simp add: all_properties_def optional_def entry_def)
  have ck: "JSON_stringify (optional (\<lambda>c. c) (chained (request ?options) req_cookies)) = Inr None"
    by (simp add: all_properties_def optional_def chained_def)
  note s = stringify_event [OF ex ck, of Boom report_stack]
  show ?thesis
    unfolding test_run [OF s]
    by (simp add: sentry_request_def all_properties_def entry_def chained_def)
qed

subsection \<open>The error object\<close>

text \<open>
  C10: every call to \<^verbatim>\<open>captureException\<close> writes the stack slot of its error argument. The
  slot then holds the call stack at the point of the call, formatted by the hook that was
  installed (or unformatted, if that hook threw), and reads \<^verbatim>\<open>undefined\<close> where V8 captured
  no frames; what the slot held before has no effect on the call. The frames in a document
  sent are those of the call stack at the point of the call.
\<close>

theorem error_stack_recaptured_at_report:
  assumes "captureException this w here error options = (w', error', outcome)"
  shows "captureException this w here (error\<lparr>stack := previous\<rparr>) options = (w', error', outcome) \<and>
         name error' = name error \<and> message error' = message error \<and>
         stack error' =
           (if stackTraceLimit_is_number w then
              (case call_hook (Capture_hook (prepareStackTrace w)) (error\<lparr>stack := Unformatted here\<rparr>) here of
                 Inl x \<Rightarrow> Unformatted here
               | Inr v \<Rightarrow> Formatted v)
            else Formatted Undefined) \<and>
         (\<forall>p. outcome = Inr p \<longrightarrow>
            (\<exists>req doc v. fetch_calls w' = fetch_calls w @ [req] \<and> body req = Some doc \<and>
               at_path doc [''exception'', ''values''] = Some (JArr [v]) \<and>
               at_path v [''stacktrace'', ''frames''] =
                 Some (JArr (map (\<lambda>c. case JSON_stringify (frame c) of Inr (Some j) \<Rightarrow> j | _ \<Rightarrow> JNull) here))))"
proof (intro conjI allI impI)
  have same: "event (error\<lparr>stack := previous\<rparr>) here options = event error here options"
    by (simp add: event_def)
  show "captureException this w here (error\<lparr>stack := previous\<rparr>) options = (w', error', outcome)"
    using assms by (auto simp: captureException_eq same split: sum.splits if_splits)
  show "name error' = name error" "message error' = message error"
    using assms by (auto simp: captureException_eq split: sum.splits if_splits)
  show "stack error' =
      (if stackTraceLimit_is_number w then
         (case call_hook (Capture_hook (prepareStackTrace w)) (error\<lparr>stack := Unformatted here\<rparr>) here of
            Inl x \<Rightarrow> Unformatted here
          | Inr v \<Rightarrow> Formatted v)
       else Formatted Undefined)"
    using assms by (auto simp: captureException_eq split: sum.splits if_splits)
next
  fix p
  assume "outcome = Inr p"
  with assms obtain s where s: "JSON_stringify (event error here options) = Inr s"
    and calls: "fetch_calls w' = fetch_calls w @ [sentry_request this s]"
    by (auto elim: captureException_sent)
  from event_exception [OF s] obtain doc where "body (sentry_request this s) = Some doc"
      "at_path doc [''exception'', ''values''] =
         Some (JArr [JObj [(''type'', JStr (name error)), (''value'', JStr (message error)),
           (''stacktrace'', JObj [(''frames'',
              JArr (map (\<lambda>c. case JSON_stringify (frame c) of Inr (Some j) \<Rightarrow> j | _ \<Rightarrow> JNull) here))])]])"
    by (auto simp: body_sentry_request)
  moreover have "at_path (JObj [(''type'', JStr (name error)), (''value'', JStr (message error)),
           (''stacktrace'', JObj [(''frames'',
              JArr (map (\<lambda>c. case JSON_stringify (frame c) of Inr (Some j) \<Rightarrow> j | _ \<Rightarrow> JNull) here))])])
        [''stacktrace'', ''frames'']
      = Some (JArr (map (\<lambda>c. case JSON_stringify (frame c) of Inr (Some j) \<Rightarrow> j | _ \<Rightarrow> JNull) here))"
    by simp
  ultimately show "\<exists>req doc v. fetch_calls w' = fetch_calls w @ [req] \<and> body req = Some doc \<and>
               at_path doc [''exception'', ''values''] = Some (JArr [v]) \<and>
               at_path v [''stacktrace'', ''frames''] =
                 Some (JArr (map (\<lambda>c. case JSON_stringify (frame c) of Inr (Some j) \<Rightarrow> j | _ \<Rightarrow> JNull) here))"
    using calls by blast
qed

theorem error_stack_recaptured_at_report_witness:
  "stack Boom = Unformatted [throw_site] \<and>
   captureException test_sentry quiet_world [report_site] Boom no_options
     = captureException test_sentry quiet_world [report_site] (Boom\<lparr>stack := Formatted (Str ''Error: Boom!'')\<rparr>) no_options \<and>
   stack (fst (snd (captureException test_sentry quiet_world [report_site] Boom no_options)))
     = Formatted Undefined \<and>
   (\<exists>req doc v.
      fetch_calls (fst (captureException test_sentry quiet_world [report_site] Boom no_options)) = [req] \<and>
      body req = Some doc \<and>
      at_path doc [''exception'', ''values''] = Some (JArr [v]) \<and>
      at_path v [''stacktrace'', ''frames''] =
        Some (JArr [JObj [(''function'', JStr ''captureException''),
                          (''filename'', JStr ''/worker-sentry/src/index.ts''),
                          (''lineno'', JNum 183), (''colno'', JNum 27), (''in_app'', JBool True),
                          (''vars'', JObj [(''this'', JStr ''[object Object]'')])]]))"
proof -
  let ?run = "captureException test_sentry quiet_world [report_site] Boom no_options"
  have out: "snd (snd ?run) = Inr (Resolved \<lparr>status = 200\<rparr>)"
    by (rule test_run_no_options)
  have q: "fetch_calls quiet_world = []" "prepareStackTrace quiet_world = None"
      "stackTraceLimit_is_number quiet_world"
    by (simp_all add: quiet_world_def)
  have f: "JSON_stringify (frame report_site) =
      Inr (Some (JObj [(''function'', JStr ''captureException''),
                          (''filename'', JStr ''/worker-sentry/src/index.ts''),
                          (''lineno'', JNum 183), (''colno'', JNum 27), (''in_app'', JBool True),
                          (''vars'', JObj [(''this'', JStr ''[object Object]'')])]))"
    by (simp add: stringify_frame report_site_def entry_def)
  have b: "stack Boom = Unformatted [throw_site]"
    by (simp add: Boom_def)
  note r = run_triple [OF out]
  from error_stack_recaptured_at_report [OF r, of "Formatted (Str ''Error: Boom!'')"]
  show ?thesis
    using r by (simp add: q f b)
qed

end
